theory Spec2Isabelle
  imports Complex_Main "HOL-Library.Multiset"
begin

section \<open>ECMAScript strings and numbers\<close>

text \<open>
  A JavaScript string is modelled as a \<^typ>\<open>string\<close>, one \<^typ>\<open>char\<close> per code unit below
  256. \<open>is_space\<close> is the white space and line terminator set of \<open>String.prototype.trim\<close>
  and of the regular expression class \<open>\s\<close> in that range. The pictographs that some
  messages of the source carry lie outside that range and are left out of the message
  constants below.
\<close>

definition is_space :: "char \<Rightarrow> bool" where
  "is_space c = (c \<in> set [CHR 0x09, CHR 0x0A, CHR 0x0B, CHR 0x0C, CHR 0x0D, CHR 0x20, CHR 0xA0])"

definition trim :: "string \<Rightarrow> string" where
  "trim s = rev (dropWhile is_space (rev (dropWhile is_space s)))"

text \<open>\<open>Array.prototype.join\<close> on an array of strings.\<close>

fun join :: "string \<Rightarrow> string list \<Rightarrow> string" where
  "join sep [] = []"
| "join sep [x] = x"
| "join sep (x # y # ys) = x @ sep @ join sep (y # ys)"

text \<open>
  A Number value, as far as the comparisons of the validator need it. \<open>js_lt a b\<close> is
  \<open>a < b\<close>: false as soon as one side is \<open>NaN\<close>.
\<close>

datatype jsnum = NaN | NegInfinity | Finite real | Infinity

fun js_lt :: "jsnum \<Rightarrow> jsnum \<Rightarrow> bool" where
  "js_lt NaN b = False"
| "js_lt NegInfinity NaN = False"
| "js_lt NegInfinity NegInfinity = False"
| "js_lt NegInfinity (Finite y) = True"
| "js_lt NegInfinity Infinity = True"
| "js_lt (Finite x) (Finite y) = (x < y)"
| "js_lt (Finite x) Infinity = True"
| "js_lt (Finite x) NaN = False"
| "js_lt (Finite x) NegInfinity = False"
| "js_lt Infinity b = False"

definition js_gt :: "jsnum \<Rightarrow> jsnum \<Rightarrow> bool" where
  "js_gt a b = js_lt b a"

definition truthy_num :: "jsnum \<Rightarrow> bool" where
  "truthy_num n = (n \<noteq> NaN \<and> n \<noteq> Finite 0)"

text \<open>
  What the validator takes from the engine: the current year, the conversion of a string
  to a Number that \<open><\<close> and \<open>>\<close> apply to a string operand, and \<open>parseFloat\<close>.
\<close>

record js_env =
  currentYear :: int
  toNumber :: "string \<Rightarrow> jsnum"
  parseFloat :: "string \<Rightarrow> jsnum"

section \<open>The registration form (register.js)\<close>

subsection \<open>State\<close>

text \<open>
  \<open>formData\<close> is one object in the source. Its text fields are only ever written by
  \<open>handleInputChange\<close> with the string of an input element, and its document fields only by
  \<open>handleFileUpload\<close>, whose field name is one of the eight upload names of the documents
  step; the two sets of keys are disjoint, so the object is modelled as two maps.
  A document field that is \<open>null\<close> is \<open>None\<close>.
\<close>

record staged_file =
  file_data :: "nat list"
  filename :: string
  file_type :: string
  file_size :: nat

record form_data =
  text_fields :: "string \<Rightarrow> string"
  file_fields :: "string \<Rightarrow> staged_file option"

record upload_status =
  uploading :: bool
  progress :: nat
  upload_error :: "string option"
  upload_success :: bool
  ready :: bool

record reg_state =
  loading :: bool
  message :: string
  currentStep :: int
  formData :: form_data
  uploadedFiles :: "string \<rightharpoonup> string"
  uploadStatus :: "string \<rightharpoonup> upload_status"
  otpVerified :: bool
  otp :: string
  otpLoading :: bool
  sameAsCorrespondence :: bool

definition formSteps :: "string list" where
  "formSteps = [''basic'', ''address'', ''academic'', ''subjects'', ''family'', ''university'',
     ''documents'']"

definition initial_fields :: "string \<Rightarrow> string" where
  "initial_fields = (\<lambda>_. [])(''nationality'' := ''Indian'', ''correspondenceCountry'' := ''India'',
     ''permanentCountry'' := ''India'')"

definition initial_state :: reg_state where
  "initial_state = \<lparr> loading = False, message = [], currentStep = 0,
     formData = \<lparr> text_fields = initial_fields, file_fields = (\<lambda>_. None) \<rparr>,
     uploadedFiles = Map.empty, uploadStatus = Map.empty,
     otpVerified = False, otp = [], otpLoading = False, sameAsCorrespondence = False \<rparr>"

text \<open>
  The effects a handler starts: a request (method and path) or a read of the selected
  file. Scrolling the window is not modelled.
\<close>

datatype effect = Fetch string string | ReadAsArrayBuffer string

definition is_fetch :: "effect \<Rightarrow> bool" where
  "is_fetch e = (case e of Fetch m u \<Rightarrow> True | ReadAsArrayBuffer f \<Rightarrow> False)"

text \<open>
  The outcome of \<open>await fetch\<close> followed by \<open>response.json()\<close>: either of them throws, or
  there is a response with its \<open>ok\<close> flag and its parsed body. \<open>body_success\<close> is the
  truthiness of \<open>data.success\<close>, \<open>body_error\<close> is \<open>data.error\<close>, empty when absent.
\<close>

record api_body =
  body_success :: bool
  body_error :: string

datatype 'b fetch_result = NetworkFailure | Response bool 'b

subsection \<open>handleInputChange\<close>

definition handleInputChange :: "string \<Rightarrow> string \<Rightarrow> reg_state \<Rightarrow> reg_state" where
  "handleInputChange name v st =
     st\<lparr>formData := (formData st)\<lparr>text_fields := (text_fields (formData st))(name := v)\<rparr>\<rparr>"

subsection \<open>handleFileUpload\<close>

record js_file =
  js_name :: string
  js_type :: string
  js_size :: nat
  js_bytes :: "nat list"

datatype read_outcome = Loaded | ReadFailed

definition allowedTypes :: "string list" where
  "allowedTypes = [''image/jpeg'', ''image/png'', ''image/jpg'', ''application/pdf'']"

definition handleFileUpload ::
  "js_file option \<Rightarrow> read_outcome \<Rightarrow> string \<Rightarrow> reg_state \<Rightarrow> reg_state \<times> effect list" where
  "handleFileUpload file_opt outcome fieldName st =
     (case file_opt of
        None \<Rightarrow> (st, [])
      | Some file \<Rightarrow>
          if js_size file > 5 * 1024 * 1024
          then (st\<lparr>message := ''File size should not exceed 5MB''\<rparr>, [])
          else if js_type file \<notin> set allowedTypes
          then (st\<lparr>message := ''Please upload only JPEG, PNG, or PDF files''\<rparr>, [])
          else (case outcome of
                  Loaded \<Rightarrow>
                    (st\<lparr>formData := (formData st)\<lparr>file_fields := (file_fields (formData st))
                           (fieldName := Some \<lparr> file_data = js_bytes file, filename = js_name file,
                              file_type = js_type file, file_size = js_size file \<rparr>)\<rparr>,
                        uploadedFiles := (uploadedFiles st)(fieldName \<mapsto> js_name file),
                        uploadStatus := (uploadStatus st)(fieldName \<mapsto>
                           \<lparr> uploading = False, progress = 100, upload_error = None,
                             upload_success = True, ready = True \<rparr>),
                        message := []\<rparr>,
                     [ReadAsArrayBuffer (js_name file)])
                | ReadFailed \<Rightarrow>
                    (st\<lparr>uploadStatus := (uploadStatus st)(fieldName \<mapsto>
                           \<lparr> uploading = False, progress = 0,
                             upload_error = Some ''Failed to read file'',
                             upload_success = False, ready = False \<rparr>)\<rparr>,
                     [ReadAsArrayBuffer (js_name file)])))"

subsection \<open>copyCorrespondenceAddress\<close>

definition copyCorrespondenceAddress :: "reg_state \<Rightarrow> reg_state" where
  "copyCorrespondenceAddress st =
     (let prev = text_fields (formData st) in
      if sameAsCorrespondence st
      then st\<lparr>formData := (formData st)\<lparr>text_fields := prev
             (''permanentAddress'' := prev ''correspondenceAddress'',
              ''permanentCity'' := prev ''correspondenceCity'',
              ''permanentState'' := prev ''correspondenceState'',
              ''permanentCountry'' := prev ''correspondenceCountry'',
              ''permanentPostalCode'' := prev ''correspondencePostalCode'')\<rparr>\<rparr>
      else st\<lparr>formData := (formData st)\<lparr>text_fields := prev
             (''permanentAddress'' := [],
              ''permanentCity'' := [],
              ''permanentState'' := [],
              ''permanentCountry'' := ''India'',
              ''permanentPostalCode'' := [])\<rparr>\<rparr>)"

text \<open>
  The check box sets \<open>sameAsCorrespondence\<close>; the effect that depends on it runs
  \<open>copyCorrespondenceAddress\<close> when the value has changed.
\<close>

definition setSameAsCorrespondence :: "bool \<Rightarrow> reg_state \<Rightarrow> reg_state" where
  "setSameAsCorrespondence checked st =
     (if checked = sameAsCorrespondence st then st
      else copyCorrespondenceAddress (st\<lparr>sameAsCorrespondence := checked\<rparr>))"

subsection \<open>validateStep\<close>

definition requiredFieldsByStep :: "string list list" where
  "requiredFieldsByStep =
    [[''studentFullName'', ''gender'', ''dateOfBirth'', ''nationality'', ''studentContactNo'',
      ''studentEmail'', ''parentContactNo''],
     [''correspondenceAddress'', ''correspondenceCity'', ''correspondenceState'',
      ''correspondencePostalCode''],
     [''tenthSchoolName'', ''tenthBoardUniversity'', ''tenthPassedOutYear'',
      ''collegeInstitutionName'', ''boardUniversity'', ''twelfthPassedOutYear''],
     [''twelfthTotalMarks'', ''twelfthScoredMarks'', ''twelfthPercentage''],
     [''fatherName'', ''motherName'', ''fatherMobile'', ''motherMobile''],
     [''department'', ''programName'', ''admissionType'', ''juApplication''],
     []]"

text \<open>\<open>requiredFieldsByStep[stepIndex] || []\<close>: an index outside the array gives no field.\<close>

definition required :: "int \<Rightarrow> string list" where
  "required stepIndex =
     (if 0 \<le> stepIndex \<and> stepIndex < int (length requiredFieldsByStep)
      then requiredFieldsByStep ! nat stepIndex else [])"

text \<open>\<open>!value || (typeof value === 'string' && value.trim() === '')\<close> on a string.\<close>

definition is_missing :: "string \<Rightarrow> bool" where
  "is_missing v = (v = [] \<or> trim v = [])"

definition missingFields :: "form_data \<Rightarrow> int \<Rightarrow> string list" where
  "missingFields fd stepIndex = filter (\<lambda>field. is_missing (text_fields fd field)) (required stepIndex)"

definition fieldLabels :: "(string \<times> string) list" where
  "fieldLabels =
    [(''studentFullName'', ''Student Full Name''),
     (''gender'', ''Gender''),
     (''dateOfBirth'', ''Date of Birth''),
     (''nationality'', ''Nationality''),
     (''studentContactNo'', ''Student Contact Number''),
     (''studentEmail'', ''Student Email''),
     (''parentContactNo'', ''Parent Contact Number''),
     (''correspondenceAddress'', ''Correspondence Address''),
     (''correspondenceCity'', ''Correspondence City''),
     (''correspondenceState'', ''Correspondence State''),
     (''correspondencePostalCode'', ''Correspondence Postal Code''),
     (''tenthSchoolName'', ''10th School Name''),
     (''tenthBoardUniversity'', ''10th Board/University''),
     (''tenthPassedOutYear'', ''10th Passed Out Year''),
     (''collegeInstitutionName'', ''College/Institution Name''),
     (''boardUniversity'', ''12th Board/University''),
     (''twelfthPassedOutYear'', ''12th Passed Out Year''),
     (''twelfthTotalMarks'', ''12th Total Marks''),
     (''twelfthScoredMarks'', ''12th Scored Marks''),
     (''twelfthPercentage'', ''12th Percentage''),
     (''fatherName'', ''Father's Name''),
     (''motherName'', ''Mother's Name''),
     (''fatherMobile'', ''Father's Mobile''),
     (''motherMobile'', ''Mother's Mobile''),
     (''department'', ''Department''),
     (''programName'', ''Program Name''),
     (''admissionType'', ''Admission Type''),
     (''juApplication'', ''JU Application Number'')]"

text \<open>\<open>fieldLabels[field] || field\<close>.\<close>

definition fieldLabel :: "string \<Rightarrow> string" where
  "fieldLabel field = (case map_of fieldLabels field of Some l \<Rightarrow> l | None \<Rightarrow> field)"

text \<open>
  \<open>/^[^\s@]+@[^\s@]+\.[^\s@]+$/.test(s)\<close>: the string has no white space and exactly one
  \<open>@\<close>, something before it, and after it a dot that is neither the first nor the last
  character of the rest.
\<close>

definition emailRegex_test :: "string \<Rightarrow> bool" where
  "emailRegex_test s =
     (let local = takeWhile (\<lambda>c. c \<noteq> CHR ''@'') s;
          rest = dropWhile (\<lambda>c. c \<noteq> CHR ''@'') s
      in local \<noteq> [] \<and> list_all (\<lambda>c. \<not> is_space c) local \<and>
         (case rest of
            [] \<Rightarrow> False
          | c0 # domain \<Rightarrow> list_all (\<lambda>c. \<not> is_space c \<and> c \<noteq> CHR ''@'') domain \<and>
                        CHR ''.'' \<in> set (butlast (tl domain))))"

text \<open>
  The block "Additional validation for specific steps": each branch returns its message
  before the missing fields are looked at.
\<close>

definition stepChecks :: "js_env \<Rightarrow> form_data \<Rightarrow> bool \<Rightarrow> int \<Rightarrow> string option" where
  "stepChecks env fd verified stepIndex =
     (let f = text_fields fd; year = Finite (real_of_int (currentYear env)) in
      if stepIndex = 0 then
        (if \<not> verified
         then Some ''Please verify the parent's phone number with OTP before proceeding to the next step.''
         else if f ''studentEmail'' \<noteq> [] \<and> \<not> emailRegex_test (f ''studentEmail'')
         then Some ''Please enter a valid email address.''
         else if f ''studentContactNo'' \<noteq> [] \<and> length (f ''studentContactNo'') < 10
         then Some ''Please enter a valid contact number (at least 10 digits).''
         else if f ''parentContactNo'' \<noteq> [] \<and> length (f ''parentContactNo'') < 10
         then Some ''Please enter a valid parent contact number (at least 10 digits).''
         else None)
      else if stepIndex = 2 then
        (if f ''tenthPassedOutYear'' \<noteq> [] \<and>
            (js_gt (toNumber env (f ''tenthPassedOutYear'')) year \<or>
             js_lt (toNumber env (f ''tenthPassedOutYear''))
                   (Finite (real_of_int (currentYear env - 15))))
         then Some ''Please enter a valid 10th passed out year.''
         else if f ''twelfthPassedOutYear'' \<noteq> [] \<and>
            (js_gt (toNumber env (f ''twelfthPassedOutYear'')) year \<or>
             js_lt (toNumber env (f ''twelfthPassedOutYear''))
                   (Finite (real_of_int (currentYear env - 10))))
         then Some ''Please enter a valid 12th passed out year.''
         else None)
      else if stepIndex = 3 then
        (let totalMarks = parseFloat env (f ''twelfthTotalMarks'');
             scoredMarks = parseFloat env (f ''twelfthScoredMarks'')
         in if truthy_num totalMarks \<and> truthy_num scoredMarks \<and> js_gt scoredMarks totalMarks
            then Some ''Scored marks cannot be greater than total marks.''
            else if f ''twelfthPercentage'' \<noteq> [] \<and>
               (js_lt (toNumber env (f ''twelfthPercentage'')) (Finite 0) \<or>
                js_gt (toNumber env (f ''twelfthPercentage'')) (Finite 100))
            then Some ''Please enter a valid percentage (0-100).''
            else None)
      else if stepIndex = 4 then
        (if f ''fatherMobile'' \<noteq> [] \<and> length (f ''fatherMobile'') < 10
         then Some ''Please enter a valid father's mobile number (at least 10 digits).''
         else if f ''motherMobile'' \<noteq> [] \<and> length (f ''motherMobile'') < 10
         then Some ''Please enter a valid mother's mobile number (at least 10 digits).''
         else None)
      else None)"

definition missingMessage :: "string list \<Rightarrow> string" where
  "missingMessage missing =
     ''Please fill in the following required fields: '' @ join '', '' (map fieldLabel missing)"

definition validateStep :: "js_env \<Rightarrow> form_data \<Rightarrow> bool \<Rightarrow> int \<Rightarrow> string option" where
  "validateStep env fd verified stepIndex =
     (case stepChecks env fd verified stepIndex of
        Some msg \<Rightarrow> Some msg
      | None \<Rightarrow>
          if length (missingFields fd stepIndex) > 0
          then Some (missingMessage (missingFields fd stepIndex))
          else None)"

subsection \<open>nextStep and prevStep\<close>

text \<open>\<open>if (error)\<close> is taken for a message that is a non-empty string.\<close>

definition is_error :: "string option \<Rightarrow> bool" where
  "is_error r = (case r of None \<Rightarrow> False | Some msg \<Rightarrow> msg \<noteq> [])"

definition nextStep :: "js_env \<Rightarrow> reg_state \<Rightarrow> reg_state" where
  "nextStep env st =
     (let error = validateStep env (formData st) (otpVerified st) (currentStep st) in
      if is_error error then st\<lparr>message := the error\<rparr>
      else if currentStep st < int (length formSteps) - 1
      then st\<lparr>currentStep := currentStep st + 1, message := []\<rparr>
      else st)"

definition prevStep :: "reg_state \<Rightarrow> reg_state" where
  "prevStep st =
     (if currentStep st > 0 then st\<lparr>currentStep := currentStep st - 1, message := []\<rparr> else st)"

subsection \<open>verifyOtp\<close>

definition verifyOtp :: "api_body fetch_result \<Rightarrow> reg_state \<Rightarrow> reg_state \<times> effect list" where
  "verifyOtp result st =
     (if otp st = [] \<or> trim (otp st) = []
      then (st\<lparr>message := ''Please enter the OTP''\<rparr>, [])
      else
        (let st1 = st\<lparr>otpLoading := True, message := ''Verifying OTP...''\<rparr>;
             st2 = (case result of
                      Response ok data \<Rightarrow>
                        if ok \<and> body_success data
                        then st1\<lparr>otpVerified := True,
                                 message := ''Parent phone number verified successfully!''\<rparr>
                        else st1\<lparr>message := (if body_error data \<noteq> [] then body_error data
                                               else ''Invalid OTP. Please try again.'')\<rparr>
                    | NetworkFailure \<Rightarrow> st1)
         in (st2\<lparr>otpLoading := False\<rparr>, [Fetch ''POST'' ''/api/verify-otp''])))"

subsection \<open>handleRegistration\<close>

definition documentFields :: "string list" where
  "documentFields = [''aadhaarUpload'', ''tenthMarksheetUpload'', ''twelfthMarksheetUpload'',
     ''transferCertificateUpload'', ''conductCertificateUpload'', ''casteCertificateUpload'',
     ''incomeCertificateUpload'', ''photographUpload'']"

text \<open>The documents sent with the request: the staged files among \<open>documentFields\<close>.\<close>

definition documentsData :: "form_data \<Rightarrow> (string \<times> staged_file) list" where
  "documentsData fd =
     concat (map (\<lambda>fieldName. case file_fields fd fieldName of None \<Rightarrow> [] | Some fileInfo \<Rightarrow> [(fieldName, fileInfo)])
                 documentFields)"

text \<open>
  \<open>handleRegistration\<close> up to the request it sends; what it does with the response is
  outside the properties below.
\<close>

definition handleRegistration :: "js_env \<Rightarrow> reg_state \<Rightarrow> reg_state \<times> effect list" where
  "handleRegistration env st =
     (if loading st then (st, [])
      else
        (let error = validateStep env (formData st) (otpVerified st) (currentStep st) in
         if is_error error then (st\<lparr>message := the error\<rparr>, [])
         else if text_fields (formData st) ''juApplication'' = [] \<or>
                 trim (text_fields (formData st) ''juApplication'') = []
         then (st\<lparr>message := ''JU Application number is required for registration''\<rparr>, [])
         else (st\<lparr>loading := True,
                  message := ''Processing registration and uploading documents...''\<rparr>,
               [Fetch ''POST'' ''/api/students/register''])))"

subsection \<open>The form as a transition system\<close>

datatype reg_event =
    EvNextStep
  | EvPrevStep
  | EvInputChange string string
  | EvSetOtp string
  | EvVerifyOtp "api_body fetch_result"
  | EvSameAsCorrespondence bool
  | EvFileUpload "js_file option" read_outcome string

fun reg_step :: "js_env \<Rightarrow> reg_state \<Rightarrow> reg_event \<Rightarrow> reg_state" where
  "reg_step env st EvNextStep = nextStep env st"
| "reg_step env st EvPrevStep = prevStep st"
| "reg_step env st (EvInputChange name v) = handleInputChange name v st"
| "reg_step env st (EvSetOtp code) = st\<lparr>otp := code\<rparr>"
| "reg_step env st (EvVerifyOtp result) = fst (verifyOtp result st)"
| "reg_step env st (EvSameAsCorrespondence checked) = setSameAsCorrespondence checked st"
| "reg_step env st (EvFileUpload file_opt outcome fieldName) =
     fst (handleFileUpload file_opt outcome fieldName st)"

definition reg_run :: "js_env \<Rightarrow> reg_state \<Rightarrow> reg_event list \<Rightarrow> reg_state" where
  "reg_run env st evs = foldl (reg_step env) st evs"

section \<open>The department verification console\<close>

text \<open>
  A student object of the API. The fields read here hold strings; a field that is absent
  is modelled by the empty string, which every test made on it (truthiness, and equality
  with a non-empty literal) treats as it treats \<open>undefined\<close>. The registration date is
  only ever passed to \<open>new Date\<close>, which tells an absent field, \<open>null\<close>, a string and a
  number apart, so the field keeps that distinction.
\<close>

datatype date_field = DateMissing | DateNull | DateString string | DateNumber int

record student =
  student_id :: string
  studentId :: string
  student_name :: string
  email :: string
  department :: string
  status :: string
  attendance :: string
  registrationDate :: date_field

record doc_type =
  doc_id :: string
  doc_name :: string
  doc_required :: bool
  backendField :: string

definition documentTypes :: "doc_type list" where
  "documentTypes =
    [\<lparr> doc_id = ''10th_marksheet'', doc_name = ''10th Marksheet'', doc_required = True,
       backendField = ''tenthMarksheetUpload'' \<rparr>,
     \<lparr> doc_id = ''12th_marksheet'', doc_name = ''12th Marksheet'', doc_required = True,
       backendField = ''twelfthMarksheetUpload'' \<rparr>,
     \<lparr> doc_id = ''transfer_certificate'', doc_name = ''Transfer Certificate'', doc_required = True,
       backendField = ''transferCertificateUpload'' \<rparr>,
     \<lparr> doc_id = ''character_certificate'', doc_name = ''Character Certificate'',
       doc_required = True, backendField = ''conductCertificateUpload'' \<rparr>,
     \<lparr> doc_id = ''caste_certificate'', doc_name = ''Caste Certificate'', doc_required = False,
       backendField = ''casteCertificateUpload'' \<rparr>,
     \<lparr> doc_id = ''income_certificate'', doc_name = ''Income Certificate'', doc_required = False,
       backendField = ''incomeCertificateUpload'' \<rparr>,
     \<lparr> doc_id = ''domicile_certificate'', doc_name = ''Domicile Certificate'', doc_required = False,
       backendField = ''domicileCertificateUpload'' \<rparr>,
     \<lparr> doc_id = ''migration_certificate'', doc_name = ''Migration Certificate'',
       doc_required = False, backendField = ''migrationCertificateUpload'' \<rparr>,
     \<lparr> doc_id = ''passport_photos'', doc_name = ''Passport Size Photos'', doc_required = True,
       backendField = ''photographUpload'' \<rparr>,
     \<lparr> doc_id = ''aadhar_card'', doc_name = ''Aadhar Card Copy'', doc_required = True,
       backendField = ''aadhaarUpload'' \<rparr>]"

text \<open>
  An entry of the verification map. \<open>verified\<close> is whether the stored value is the boolean
  \<open>true\<close>, the only thing \<open>=== true\<close> asks of it.
\<close>

record doc_verification =
  verified :: bool
  doc_notes :: string
  verifiedAt :: "string option"
  verifiedBy :: "string option"

record console_state =
  students :: "student list"
  filteredStudents :: "student list"
  searchQuery :: string
  list_loading :: bool
  selectedStudent :: "student option"
  showVerificationModal :: bool
  notification :: "string \<times> string"
  verificationData :: "string \<rightharpoonup> doc_verification"

definition initial_console :: console_state where
  "initial_console = \<lparr> students = [], filteredStudents = [], searchQuery = [],
     list_loading = False, selectedStudent = None, showVerificationModal = False,
     notification = ([], []), verificationData = Map.empty \<rparr>"

text \<open>The requests the console sends: the path parameters and, for the status, the new value.\<close>

datatype api_call =
    PutDocuments string
  | PutStatus string string
  | GetPendingVerification

subsection \<open>loadStudentsForVerification\<close>

text \<open>
  The body of the list response; \<open>list_students\<close> is \<open>None\<close> when \<open>data.students\<close> is not an
  array, and then \<open>filter\<close> throws inside the \<open>try\<close> block.
\<close>

record list_body =
  list_success :: bool
  list_students :: "student list option"

definition actionable :: "student \<Rightarrow> bool" where
  "actionable s = (status s = ''photo_uploaded'' \<and> attendance s = ''present'')"

text \<open>
  The statistics and the admission slip table that the function also fills are derived
  from \<open>studentsList\<close> and are not part of the state modelled here.
\<close>

definition loadStudentsForVerification ::
  "list_body fetch_result \<Rightarrow> console_state \<Rightarrow> console_state" where
  "loadStudentsForVerification result st =
     (let st1 =
        (case result of
           NetworkFailure \<Rightarrow> st\<lparr>notification := (''Unable to connect to server'', ''error'')\<rparr>
         | Response ok data \<Rightarrow>
             if ok \<and> list_success data
             then (case list_students data of
                     None \<Rightarrow> st\<lparr>notification := (''Unable to connect to server'', ''error'')\<rparr>
                   | Some all_students \<Rightarrow>
                       (let studentsList = filter actionable all_students
                        in st\<lparr>students := studentsList, filteredStudents := studentsList\<rparr>))
             else st\<lparr>notification := (''Failed to load students'', ''error'')\<rparr>)
      in st1\<lparr>list_loading := False\<rparr>)"

subsection \<open>The search filter\<close>

definition toLowerCase :: "string \<Rightarrow> string" where
  "toLowerCase s =
     map (\<lambda>c. let n = (of_char c :: nat) in
               if (65 \<le> n \<and> n \<le> 90) \<or> (192 \<le> n \<and> n \<le> 222 \<and> n \<noteq> 215)
               then char_of (n + 32) else c) s"

fun str_includes :: "string \<Rightarrow> string \<Rightarrow> bool" where
  "str_includes [] sub = (sub = [])"
| "str_includes (c # cs) sub = (take (length sub) (c # cs) = sub \<or> str_includes cs sub)"

definition matchesSearch :: "string \<Rightarrow> student \<Rightarrow> bool" where
  "matchesSearch query s =
     ((student_name s \<noteq> [] \<and> str_includes (toLowerCase (student_name s)) (toLowerCase query)) \<or>
      (studentId s \<noteq> [] \<and> str_includes (toLowerCase (studentId s)) (toLowerCase query)) \<or>
      (email s \<noteq> [] \<and> str_includes (toLowerCase (email s)) (toLowerCase query)))"

text \<open>The effect on \<open>[searchQuery, students]\<close>.\<close>

definition searchEffect :: "console_state \<Rightarrow> console_state" where
  "searchEffect st =
     (if trim (searchQuery st) = [] then st\<lparr>filteredStudents := students st\<rparr>
      else st\<lparr>filteredStudents := filter (matchesSearch (searchQuery st)) (students st)\<rparr>)"

subsection \<open>saveVerification\<close>

text \<open>\<open>verificationData[doc.id]?.verified === true\<close>.\<close>

definition isVerified :: "(string \<rightharpoonup> doc_verification) \<Rightarrow> doc_type \<Rightarrow> bool" where
  "isVerified vdata doc = (case vdata (doc_id doc) of None \<Rightarrow> False | Some v \<Rightarrow> verified v)"

text \<open>
  \<open>result\<close> is the outcome of the request that stores the map. \<open>updateStudentStatus\<close> sends
  its request and swallows every failure; the list is then loaded again.
\<close>

definition saveVerification ::
  "api_body fetch_result \<Rightarrow> console_state \<Rightarrow> console_state \<times> api_call list" where
  "saveVerification result st =
     (case selectedStudent st of
        None \<Rightarrow> (st, [])
      | Some sel \<Rightarrow>
          (case result of
             NetworkFailure \<Rightarrow>
               (st\<lparr>notification := (''Failed to save verification'', ''error'')\<rparr>,
                [PutDocuments (student_id sel)])
           | Response ok data \<Rightarrow>
               if ok \<and> body_success data
               then
                 (let requiredDocs = filter doc_required documentTypes;
                      allRequiredVerified = list_all (isVerified (verificationData st)) requiredDocs
                  in if allRequiredVerified
                     then (st\<lparr>notification :=
                                (''All documents verified! Student registration completed.'',
                                 ''success''),
                              showVerificationModal := False, selectedStudent := None\<rparr>,
                           [PutDocuments (student_id sel),
                            PutStatus (studentId sel) ''documents_verified'',
                            GetPendingVerification])
                     else (st\<lparr>notification :=
                                (''Document verification saved successfully!'', ''success''),
                              showVerificationModal := False, selectedStudent := None\<rparr>,
                           [PutDocuments (student_id sel), GetPendingVerification]))
               else
                 (st\<lparr>notification :=
                      (if body_error data \<noteq> [] then body_error data
                       else ''Failed to save verification'', ''error'')\<rparr>,
                  [PutDocuments (student_id sel)])))"

definition is_status_call :: "api_call \<Rightarrow> bool" where
  "is_status_call c = (case c of PutStatus i v \<Rightarrow> True | PutDocuments i \<Rightarrow> False
                       | GetPendingVerification \<Rightarrow> False)"

subsection \<open>The console as a transition system\<close>

datatype console_event =
    EvLoad "list_body fetch_result"
  | EvSearch string

fun console_step :: "console_state \<Rightarrow> console_event \<Rightarrow> console_state" where
  "console_step st (EvLoad result) = searchEffect (loadStudentsForVerification result st)"
| "console_step st (EvSearch query) = searchEffect (st\<lparr>searchQuery := query\<rparr>)"

definition console_run :: "console_state \<Rightarrow> console_event list \<Rightarrow> console_state" where
  "console_run st evs = foldl console_step st evs"

section \<open>The queue dashboard\<close>

subsection \<open>Grouping by department\<close>








subsection \<open>Sorting a group\<close>



text \<open>
  \<open>Array.prototype.sort\<close> with a comparator reads a \<open>NaN\<close> from the comparator as 0. The
  language fixes the result only for a comparator that is consistent on the elements
  (every element equal to itself, the three relations symmetric to each other and each
  transitive): the result is then the stable sort. For any other comparator the order is
  the engine's choice, and the model records the elements without an order.
\<close>

definition comparatorValue :: "int option \<Rightarrow> int" where
  "comparatorValue v = (case v of None \<Rightarrow> 0 | Some n \<Rightarrow> n)"

definition consistentComparator :: "('a \<Rightarrow> 'a \<Rightarrow> int) \<Rightarrow> 'a list \<Rightarrow> bool" where
  "consistentComparator v xs =
     list_all (\<lambda>a. v a a = 0 \<and>
       list_all (\<lambda>b. (v a b = 0 \<longrightarrow> v b a = 0) \<and> (v a b < 0 \<longrightarrow> v b a > 0) \<and>
                     (v a b > 0 \<longrightarrow> v b a < 0) \<and>
         list_all (\<lambda>c. (v a b = 0 \<and> v b c = 0 \<longrightarrow> v a c = 0) \<and>
                       (v a b < 0 \<and> v b c < 0 \<longrightarrow> v a c < 0) \<and>
                       (v a b > 0 \<and> v b c > 0 \<longrightarrow> v a c > 0)) xs) xs) xs"

fun insertBy :: "('a \<Rightarrow> 'a \<Rightarrow> int option) \<Rightarrow> 'a \<Rightarrow> 'a list \<Rightarrow> 'a list" where
  "insertBy cmp x [] = [x]"
| "insertBy cmp x (y # ys) =
     (if comparatorValue (cmp x y) \<le> 0 then x # y # ys else y # insertBy cmp x ys)"

datatype 'a sort_result = InOrder "'a list" | EngineOrder "'a list"

definition arraySort :: "('a \<Rightarrow> 'a \<Rightarrow> int option) \<Rightarrow> 'a list \<Rightarrow> 'a sort_result" where
  "arraySort cmp xs =
     (if consistentComparator (\<lambda>a b. comparatorValue (cmp a b)) xs
      then InOrder (foldr (insertBy cmp) xs [])
      else EngineOrder xs)"

fun elements :: "'a sort_result \<Rightarrow> 'a list" where
  "elements (InOrder xs) = xs"
| "elements (EngineOrder xs) = xs"


subsection \<open>The cards\<close>









section \<open>Sample inputs\<close>

text \<open>Concrete inputs on which the results below are instantiated.\<close>

definition sample_env :: js_env where
  "sample_env = \<lparr> currentYear = 2025,
     toNumber = (\<lambda>s. if s = ''2021'' then Finite 2021 else NaN),
     parseFloat = (\<lambda>s. NaN) \<rparr>"

definition address_form :: form_data where
  "address_form = \<lparr> text_fields = initial_fields
       (''correspondenceAddress'' := ''12 Lake Road'', ''correspondenceCity'' := ''Pune'',
        ''correspondenceState'' := ''MH'', ''correspondencePostalCode'' := ''411001''),
     file_fields = (\<lambda>_. None) \<rparr>"

definition last_step_state :: reg_state where
  "last_step_state = initial_state\<lparr>currentStep := 6,
     formData := \<lparr> text_fields = initial_fields(''juApplication'' := ''JU2025-17''),
                    file_fields = (\<lambda>_. None) \<rparr>\<rparr>"

definition otp_state :: reg_state where
  "otp_state = initial_state\<lparr>otp := ''123456''\<rparr>"

definition pdf_file :: "nat \<Rightarrow> string \<Rightarrow> js_file" where
  "pdf_file n t = \<lparr> js_name = ''marks.pdf'', js_type = t, js_size = n, js_bytes = [37, 80, 68, 70] \<rparr>"

definition sample_student :: "string \<Rightarrow> string \<Rightarrow> string \<Rightarrow> string \<Rightarrow> string \<Rightarrow> student" where
  "sample_student i dept st att reg =
     \<lparr> student_id = i, studentId = i, student_name = ''N'' @ i, email = [],
       department = dept, status = st, attendance = att, registrationDate = DateString reg \<rparr>"

definition all_verified :: "string \<rightharpoonup> doc_verification" where
  "all_verified = (\<lambda>i. Some \<lparr> verified = True, doc_notes = [], verifiedAt = None, verifiedBy = None \<rparr>)"

definition review_state :: "(string \<rightharpoonup> doc_verification) \<Rightarrow> console_state" where
  "review_state vdata = initial_console\<lparr>
     selectedStudent := Some (sample_student ''S1'' ''CSE'' ''photo_uploaded'' ''present'' ''t1''),
     showVerificationModal := True, verificationData := vdata\<rparr>"

definition sample_roster :: "student list" where
  "sample_roster =
     [sample_student ''S1'' ''A'' ''photo_uploaded'' ''present'' ''t1'',
      sample_student ''S2'' ''A'' ''photo_uploaded'' ''present'' ''t2'',
      sample_student ''S3'' ''A'' ''verified'' ''present'' ''t1'',
      sample_student ''S4'' ''B'' ''photo_uploaded'' ''absent'' ''t2'']"

definition address_state :: reg_state where
  "address_state = initial_state\<lparr>formData := address_form\<rparr>"

definition mirrored_state :: reg_state where
  "mirrored_state = setSameAsCorrespondence True address_state"

definition ok_body :: api_body where
  "ok_body = \<lparr> body_success = True, body_error = [] \<rparr>"




section \<open>Registration form: results\<close>

subsection \<open>Auxiliary facts\<close>

lemma trim_Nil [simp]: "trim [] = []"
  by (simp add: trim_def)

lemma is_missing_iff: "is_missing v \<longleftrightarrow> trim v = []"
  by (auto simp: is_missing_def)

lemma stepChecks_is_error:
  assumes "stepChecks env fd v i = Some msg"
  shows "msg \<noteq> []"
proof -
  consider "i = 0" | "i = 2" | "i = 3" | "i = 4" | "i \<notin> {0, 2, 3, 4}" by auto
  then show ?thesis
  proof cases
    case 1
    with assms show ?thesis
      by (auto simp: stepChecks_def Let_def split: if_splits)
  next
    case 2
    with assms show ?thesis
      by (auto simp: stepChecks_def Let_def split: if_splits)
  next
    case 3
    with assms show ?thesis
      by (auto simp: stepChecks_def Let_def split: if_splits)
  next
    case 4
    with assms show ?thesis
      by (auto simp: stepChecks_def Let_def split: if_splits)
  next
    case 5
    with assms show ?thesis
      by (simp add: stepChecks_def Let_def)
  qed
qed

lemma stepChecks_none: "i \<notin> {0, 2, 3, 4} \<Longrightarrow> stepChecks env fd v i = None"
  by (simp add: stepChecks_def Let_def)

lemma required_1:
  "required 1 = [''correspondenceAddress'', ''correspondenceCity'', ''correspondenceState'',
                 ''correspondencePostalCode'']"
  by (simp add: required_def requiredFieldsByStep_def)

lemma required_6: "required 6 = []"
  by (simp add: required_def requiredFieldsByStep_def)

lemma validateStep_6: "validateStep env fd v 6 = None"
  by (simp add: validateStep_def stepChecks_none missingFields_def required_6)

lemma nextStep_range:
  "0 \<le> currentStep st \<Longrightarrow> currentStep st \<le> 6 \<Longrightarrow>
   0 \<le> currentStep (nextStep env st) \<and> currentStep (nextStep env st) \<le> 6"
  by (simp add: nextStep_def Let_def formSteps_def)

lemma prevStep_range:
  "0 \<le> currentStep st \<Longrightarrow> currentStep st \<le> 6 \<Longrightarrow>
   0 \<le> currentStep (prevStep st) \<and> currentStep (prevStep st) \<le> 6"
  by (simp add: prevStep_def)

lemma verifyOtp_currentStep: "currentStep (fst (verifyOtp r st)) = currentStep st"
  by (simp add: verifyOtp_def Let_def split: fetch_result.splits)

lemma handleFileUpload_currentStep:
  "currentStep (fst (handleFileUpload f out n st)) = currentStep st"
  by (simp add: handleFileUpload_def split: option.splits read_outcome.splits)

lemma setSame_currentStep: "currentStep (setSameAsCorrespondence b st) = currentStep st"
  by (simp add: setSameAsCorrespondence_def copyCorrespondenceAddress_def Let_def)

lemma reg_step_range:
  "0 \<le> currentStep st \<Longrightarrow> currentStep st \<le> 6 \<Longrightarrow>
   0 \<le> currentStep (reg_step env st ev) \<and> currentStep (reg_step env st ev) \<le> 6"
  by (cases ev)
     (simp_all add: nextStep_range prevStep_range verifyOtp_currentStep
        handleFileUpload_currentStep setSame_currentStep handleInputChange_def)

lemma reg_run_range:
  "0 \<le> currentStep st \<Longrightarrow> currentStep st \<le> 6 \<Longrightarrow>
   0 \<le> currentStep (reg_run env st evs) \<and> currentStep (reg_run env st evs) \<le> 6"
  unfolding reg_run_def
proof (induction evs arbitrary: st)
  case Nil
  then show ?case by simp
next
  case (Cons ev evs)
  from reg_step_range [OF Cons.prems] have
    "0 \<le> currentStep (reg_step env st ev)" "currentStep (reg_step env st ev) \<le> 6"
    by simp_all
  from Cons.IH [OF this] show ?case by simp
qed

subsection \<open>Required fields of a step\<close>

text \<open>
  Claim C4. For every form snapshot and every step index, \<open>validateStep\<close> returns an
  error (a non-empty message) whenever a required field of the step is empty or blank
  after trimming; it returns \<open>null\<close> when every required field is filled and none of the
  step's additional checks fires; and when no additional check fires, the error for
  missing fields is one message: the fixed prefix followed by the labels of all missing
  fields, in the order of the step's list, joined by a comma and a space.
\<close>

theorem validateStep_required_fields:
  "((\<exists>field \<in> set (required stepIndex). trim (text_fields fd field) = []) \<longrightarrow>
      is_error (validateStep env fd v stepIndex) \<and> validateStep env fd v stepIndex \<noteq> None) \<and>
   ((\<forall>field \<in> set (required stepIndex). trim (text_fields fd field) \<noteq> []) \<and>
    stepChecks env fd v stepIndex = None \<longrightarrow>
      validateStep env fd v stepIndex = None) \<and>
   ((\<exists>field \<in> set (required stepIndex). trim (text_fields fd field) = []) \<and>
    stepChecks env fd v stepIndex = None \<longrightarrow>
      validateStep env fd v stepIndex =
        Some (''Please fill in the following required fields: '' @
              join '', '' (map fieldLabel
                (filter (\<lambda>field. trim (text_fields fd field) = []) (required stepIndex)))))"
proof -
  have m: "missingFields fd stepIndex =
             filter (\<lambda>field. trim (text_fields fd field) = []) (required stepIndex)"
    by (simp add: missingFields_def is_missing_iff)
  have e: "missingFields fd stepIndex \<noteq> [] \<longleftrightarrow>
             (\<exists>field \<in> set (required stepIndex). trim (text_fields fd field) = [])"
    unfolding m by (simp add: filter_empty_conv)
  show ?thesis
  proof (cases "stepChecks env fd v stepIndex")
    case None
    then show ?thesis
      using e m by (auto simp: validateStep_def is_error_def missingMessage_def)
  next
    case (Some msg)
    then show ?thesis
      using stepChecks_is_error [OF Some] by (simp add: validateStep_def is_error_def)
  qed
qed

theorem validateStep_required_fields_witness:
  "validateStep sample_env (formData initial_state) True 1 =
     Some ''Please fill in the following required fields: Correspondence Address, Correspondence City, Correspondence State, Correspondence Postal Code'' \<and>
   validateStep sample_env address_form True 1 = None"
proof -
  have c: "stepChecks sample_env fd True 1 = None" for fd
    by (simp add: stepChecks_none)
  have m: "\<exists>field \<in> set (required 1). trim (text_fields (formData initial_state) field) = []"
    by (simp add: required_1 initial_state_def initial_fields_def)
  have f: "\<forall>field \<in> set (required 1). trim (text_fields address_form field) \<noteq> []"
    by (simp add: required_1 address_form_def initial_fields_def trim_def is_space_def)
  from validateStep_required_fields
         [where stepIndex = 1 and fd = "formData initial_state" and env = sample_env and v = True]
       m c
  have 1: "validateStep sample_env (formData initial_state) True 1 =
        Some (''Please fill in the following required fields: '' @
              join '', '' (map fieldLabel
                (filter (\<lambda>field. trim (text_fields (formData initial_state) field) = [])
                   (required 1))))"
    by blast
  from validateStep_required_fields
         [where stepIndex = 1 and fd = address_form and env = sample_env and v = True] f c
  have 2: "validateStep sample_env address_form True 1 = None"
    by blast
  have 3: "filter (\<lambda>field. trim (text_fields (formData initial_state) field) = []) (required 1)
             = required 1"
    by (simp add: required_1 initial_state_def initial_fields_def)
  show ?thesis
    unfolding 1 2 3 by (simp add: required_1 fieldLabel_def fieldLabels_def)
qed

subsection \<open>The step index\<close>

text \<open>
  Claim C5. Whatever sequence of events the form receives (\<open>nextStep\<close>, \<open>prevStep\<close>, and
  the other handlers in between), the step index stays between 0 and 6: from a state in
  that range, and so from the initial state, every run ends in that range; \<open>nextStep\<close>
  raises the index by at most one and never beyond 6, \<open>prevStep\<close> lowers it by at most
  one and never below 0.
\<close>

theorem step_index_stays_in_range:
  "(0 \<le> currentStep st \<and> currentStep st \<le> 6 \<longrightarrow>
      0 \<le> currentStep (reg_run env st evs) \<and> currentStep (reg_run env st evs) \<le> 6) \<and>
   0 \<le> currentStep (reg_run env initial_state evs) \<and>
   currentStep (reg_run env initial_state evs) \<le> 6 \<and>
   (0 \<le> currentStep st \<and> currentStep st \<le> 6 \<longrightarrow>
      currentStep st \<le> currentStep (nextStep env st) \<and>
      currentStep (nextStep env st) \<le> min 6 (currentStep st + 1)) \<and>
   (0 \<le> currentStep st \<and> currentStep st \<le> 6 \<longrightarrow>
      max 0 (currentStep st - 1) \<le> currentStep (prevStep st) \<and>
      currentStep (prevStep st) \<le> currentStep st)"
proof -
  have init: "0 \<le> currentStep initial_state" "currentStep initial_state \<le> 6"
    by (simp_all add: initial_state_def)
  have n: "0 \<le> currentStep st \<and> currentStep st \<le> 6 \<longrightarrow>
      currentStep st \<le> currentStep (nextStep env st) \<and>
      currentStep (nextStep env st) \<le> min 6 (currentStep st + 1)"
    by (simp add: nextStep_def Let_def formSteps_def)
  have p: "0 \<le> currentStep st \<and> currentStep st \<le> 6 \<longrightarrow>
      max 0 (currentStep st - 1) \<le> currentStep (prevStep st) \<and>
      currentStep (prevStep st) \<le> currentStep st"
    by (simp add: prevStep_def)
  show ?thesis
    using reg_run_range [of st env evs] reg_run_range [OF init, of env evs] n p by blast
qed

theorem step_index_stays_in_range_witness:
  "0 \<le> currentStep last_step_state \<and> currentStep last_step_state \<le> 6 \<and>
   0 \<le> currentStep (reg_run sample_env last_step_state [EvNextStep, EvNextStep, EvPrevStep]) \<and>
   currentStep (reg_run sample_env last_step_state [EvNextStep, EvNextStep, EvPrevStep]) \<le> 6 \<and>
   currentStep (nextStep sample_env last_step_state) = 6"
proof -
  have h: "0 \<le> currentStep last_step_state \<and> currentStep last_step_state \<le> 6"
    by (simp add: last_step_state_def initial_state_def)
  have c: "currentStep last_step_state = 6"
    by (simp add: last_step_state_def initial_state_def)
  from step_index_stays_in_range
         [where st = last_step_state and env = sample_env
            and evs = "[EvNextStep, EvNextStep, EvPrevStep]"] h
  show ?thesis
    by (simp add: c)
qed

subsection \<open>Mirroring the correspondence address\<close>

text \<open>
  Claim C6, as the source has it. Switching the mirror on copies the five correspondence
  fields (address, city, state, country, postal code) into the five permanent fields
  and changes no other field. Switching it off sets the permanent address, city, state
  and postal code to the empty string and the permanent country to its initial value
  \<open>India\<close>, whatever had been entered before, and changes no other field.
\<close>

theorem mirror_toggle:
  "(\<not> sameAsCorrespondence st \<longrightarrow>
      (let f = text_fields (formData st);
           f' = text_fields (formData (setSameAsCorrespondence True st))
       in f' ''permanentAddress'' = f ''correspondenceAddress'' \<and>
          f' ''permanentCity'' = f ''correspondenceCity'' \<and>
          f' ''permanentState'' = f ''correspondenceState'' \<and>
          f' ''permanentCountry'' = f ''correspondenceCountry'' \<and>
          f' ''permanentPostalCode'' = f ''correspondencePostalCode'' \<and>
          (\<forall>k. k \<notin> {''permanentAddress'', ''permanentCity'', ''permanentState'',
                     ''permanentCountry'', ''permanentPostalCode''} \<longrightarrow> f' k = f k))) \<and>
   (sameAsCorrespondence st \<longrightarrow>
      (let f = text_fields (formData st);
           f' = text_fields (formData (setSameAsCorrespondence False st))
       in f' ''permanentAddress'' = [] \<and>
          f' ''permanentCity'' = [] \<and>
          f' ''permanentState'' = [] \<and>
          f' ''permanentCountry'' = ''India'' \<and>
          f' ''permanentPostalCode'' = [] \<and>
          (\<forall>k. k \<notin> {''permanentAddress'', ''permanentCity'', ''permanentState'',
                     ''permanentCountry'', ''permanentPostalCode''} \<longrightarrow> f' k = f k)))"
  by (simp add: setSameAsCorrespondence_def copyCorrespondenceAddress_def Let_def)

theorem mirror_toggle_witness:
  "\<not> sameAsCorrespondence address_state \<and>
   text_fields (formData (setSameAsCorrespondence True address_state)) ''permanentCity'' = ''Pune'' \<and>
   text_fields (formData (setSameAsCorrespondence True address_state)) ''permanentPostalCode'' =
     ''411001'' \<and>
   sameAsCorrespondence mirrored_state \<and>
   text_fields (formData (setSameAsCorrespondence False mirrored_state)) ''permanentCity'' = [] \<and>
   text_fields (formData (setSameAsCorrespondence False mirrored_state)) ''permanentCountry'' =
     ''India''"
proof -
  have off: "\<not> sameAsCorrespondence address_state"
    by (simp add: address_state_def initial_state_def)
  have on: "sameAsCorrespondence mirrored_state"
    by (simp add: mirrored_state_def setSameAsCorrespondence_def copyCorrespondenceAddress_def
          Let_def off)
  have src: "text_fields (formData address_state) ''correspondenceCity'' = ''Pune''"
    "text_fields (formData address_state) ''correspondencePostalCode'' = ''411001''"
    by (simp_all add: address_state_def address_form_def initial_fields_def)
  from mirror_toggle [where st = address_state] mirror_toggle [where st = mirrored_state]
  show ?thesis
    using off on src by (simp add: Let_def)
qed

text \<open>
  The claim as worded, that switching the mirror off blanks all five permanent fields,
  fails on the country: after the mirror has been switched on and off again, the five
  permanent fields are not all empty.
\<close>

theorem mirror_off_blanks_all_counterexample:
  "\<not> list_all
       (\<lambda>k. text_fields (formData (setSameAsCorrespondence False mirrored_state)) k = [])
       [''permanentAddress'', ''permanentCity'', ''permanentState'', ''permanentCountry'',
        ''permanentPostalCode'']"
  by (simp add: mirrored_state_def address_state_def initial_state_def
        setSameAsCorrespondence_def copyCorrespondenceAddress_def Let_def)

subsection \<open>Verifying the one-time code\<close>

text \<open>
  Claim C7. After \<open>verifyOtp\<close> the verified flag is set exactly when it was set before,
  or the code is not blank and the request came back with an OK response whose body
  reports success. With a blank code nothing is sent and the message asks for the code.
  So from an unverified state, a response that reports failure, a response that is not
  OK, and a request that fails all leave the flag false.
\<close>

theorem verifyOtp_only_on_success:
  "(otpVerified (fst (verifyOtp result st)) \<longleftrightarrow>
      otpVerified st \<or>
      (trim (otp st) \<noteq> [] \<and>
       (case result of NetworkFailure \<Rightarrow> False | Response ok data \<Rightarrow> ok \<and> body_success data))) \<and>
   (trim (otp st) = [] \<longrightarrow>
      verifyOtp result st = (st\<lparr>message := ''Please enter the OTP''\<rparr>, []))"
  by (auto simp: verifyOtp_def Let_def split: fetch_result.splits)

theorem verifyOtp_only_on_success_witness:
  "otpVerified (fst (verifyOtp (Response True ok_body) otp_state)) \<and>
   \<not> otpVerified (fst (verifyOtp NetworkFailure otp_state)) \<and>
   \<not> otpVerified (fst (verifyOtp (Response False ok_body) otp_state)) \<and>
   verifyOtp (Response True ok_body) initial_state =
     (initial_state\<lparr>message := ''Please enter the OTP''\<rparr>, [])"
proof -
  have t: "trim (otp otp_state) \<noteq> []"
    by (simp add: otp_state_def initial_state_def trim_def is_space_def)
  have u: "\<not> otpVerified otp_state"
    by (simp add: otp_state_def initial_state_def)
  have b: "trim (otp initial_state) = []"
    by (simp add: initial_state_def)
  from verifyOtp_only_on_success [where result = "Response True ok_body" and st = otp_state]
       verifyOtp_only_on_success [where result = NetworkFailure and st = otp_state]
       verifyOtp_only_on_success [where result = "Response False ok_body" and st = otp_state]
       verifyOtp_only_on_success [where result = "Response True ok_body" and st = initial_state]
  show ?thesis
    using t u b by (simp add: ok_body_def)
qed

subsection \<open>Staging a file\<close>

text \<open>
  Claim C8. \<open>handleFileUpload\<close> rejects a file of more than 5 MB with the size message,
  and a file of at most 5 MB whose type is not one of the accepted JPEG, PNG and PDF
  types with the type message; in both cases nothing else changes. A file of at most
  5 MB of an accepted type, once read, is stored under the field name with its bytes,
  file name, type and size, and its name is entered in the table of staged files.
  Whatever the input, the handler sends no request.
\<close>

theorem file_staging:
  "(js_size picked > 5 * 1024 * 1024 \<longrightarrow>
      handleFileUpload (Some picked) outcome fieldName st =
        (st\<lparr>message := ''File size should not exceed 5MB''\<rparr>, [])) \<and>
   (js_size picked \<le> 5 * 1024 * 1024 \<and>
    js_type picked \<notin> {''image/jpeg'', ''image/png'', ''image/jpg'', ''application/pdf''} \<longrightarrow>
      handleFileUpload (Some picked) outcome fieldName st =
        (st\<lparr>message := ''Please upload only JPEG, PNG, or PDF files''\<rparr>, [])) \<and>
   (js_size picked \<le> 5 * 1024 * 1024 \<and>
    js_type picked \<in> {''image/jpeg'', ''image/png'', ''image/jpg'', ''application/pdf''} \<longrightarrow>
      file_fields (formData (fst (handleFileUpload (Some picked) Loaded fieldName st))) fieldName =
        Some \<lparr> file_data = js_bytes picked, filename = js_name picked,
               file_type = js_type picked, file_size = js_size picked \<rparr> \<and>
      uploadedFiles (fst (handleFileUpload (Some picked) Loaded fieldName st)) fieldName =
        Some (js_name picked) \<and>
      snd (handleFileUpload (Some picked) Loaded fieldName st) = [ReadAsArrayBuffer (js_name picked)]) \<and>
   \<not> list_ex is_fetch (snd (handleFileUpload file_opt outcome fieldName st))"
  by (auto simp: handleFileUpload_def allowedTypes_def is_fetch_def
           split: option.splits read_outcome.splits)

theorem file_staging_witness:
  "handleFileUpload (Some (pdf_file (6 * 1024 * 1024) ''application/pdf'')) Loaded
       ''aadhaarUpload'' initial_state =
     (initial_state\<lparr>message := ''File size should not exceed 5MB''\<rparr>, []) \<and>
   handleFileUpload (Some (pdf_file 2048 ''image/gif'')) Loaded ''aadhaarUpload'' initial_state =
     (initial_state\<lparr>message := ''Please upload only JPEG, PNG, or PDF files''\<rparr>, []) \<and>
   file_fields (formData (fst (handleFileUpload
       (Some (pdf_file (5 * 1024 * 1024) ''application/pdf'')) Loaded ''aadhaarUpload''
       initial_state))) ''aadhaarUpload'' =
     Some \<lparr> file_data = [37, 80, 68, 70], filename = ''marks.pdf'',
            file_type = ''application/pdf'', file_size = 5 * 1024 * 1024 \<rparr>"
proof -
  from file_staging [where picked = "pdf_file (6 * 1024 * 1024) ''application/pdf''"
         and outcome = Loaded and fieldName = "''aadhaarUpload''" and st = initial_state]
  have 1: "handleFileUpload (Some (pdf_file (6 * 1024 * 1024) ''application/pdf'')) Loaded
       ''aadhaarUpload'' initial_state =
     (initial_state\<lparr>message := ''File size should not exceed 5MB''\<rparr>, [])"
    by (simp add: pdf_file_def)
  from file_staging [where picked = "pdf_file 2048 ''image/gif''"
         and outcome = Loaded and fieldName = "''aadhaarUpload''" and st = initial_state]
  have 2: "handleFileUpload (Some (pdf_file 2048 ''image/gif'')) Loaded ''aadhaarUpload''
       initial_state =
     (initial_state\<lparr>message := ''Please upload only JPEG, PNG, or PDF files''\<rparr>, [])"
    by (simp add: pdf_file_def)
  from file_staging [where picked = "pdf_file (5 * 1024 * 1024) ''application/pdf''"
         and fieldName = "''aadhaarUpload''" and st = initial_state]
  have 3: "file_fields (formData (fst (handleFileUpload
       (Some (pdf_file (5 * 1024 * 1024) ''application/pdf'')) Loaded ''aadhaarUpload''
       initial_state))) ''aadhaarUpload'' =
     Some \<lparr> file_data = [37, 80, 68, 70], filename = ''marks.pdf'',
            file_type = ''application/pdf'', file_size = 5 * 1024 * 1024 \<rparr>"
    by (simp add: pdf_file_def)
  from 1 2 3 show ?thesis by blast
qed

subsection \<open>The documents step and the submission\<close>

text \<open>
  Claim C10. For every form snapshot \<open>validateStep\<close> at step 6 returns \<open>null\<close>. Hence on the
  documents step, when no submission is running, \<open>handleRegistration\<close> sends the
  registration request exactly when the application number is not blank after trimming,
  whether or not any document is staged; with a blank number it only sets the message
  that the number is required.
\<close>

theorem documents_step_has_no_check:
  "validateStep env fd v 6 = None \<and>
   (\<not> loading st \<and> currentStep st = 6 \<longrightarrow>
      (trim (text_fields (formData st) ''juApplication'') \<noteq> [] \<longrightarrow>
         handleRegistration env st =
           (st\<lparr>loading := True, message := ''Processing registration and uploading documents...''\<rparr>,
            [Fetch ''POST'' ''/api/students/register''])) \<and>
      (trim (text_fields (formData st) ''juApplication'') = [] \<longrightarrow>
         handleRegistration env st =
           (st\<lparr>message := ''JU Application number is required for registration''\<rparr>, [])))"
  using validateStep_6 by (auto simp: handleRegistration_def Let_def is_error_def)

theorem documents_step_has_no_check_witness:
  "\<not> loading last_step_state \<and> currentStep last_step_state = 6 \<and>
   documentsData (formData last_step_state) = [] \<and>
   handleRegistration sample_env last_step_state =
     (last_step_state\<lparr>loading := True,
        message := ''Processing registration and uploading documents...''\<rparr>,
      [Fetch ''POST'' ''/api/students/register''])"
proof -
  have h: "\<not> loading last_step_state \<and> currentStep last_step_state = 6"
    by (simp add: last_step_state_def initial_state_def)
  have j: "trim (text_fields (formData last_step_state) ''juApplication'') \<noteq> []"
    by (simp add: last_step_state_def initial_state_def trim_def is_space_def)
  have d: "documentsData (formData last_step_state) = []"
    by (simp add: documentsData_def documentFields_def last_step_state_def)
  from documents_step_has_no_check [where st = last_step_state and env = sample_env] h j d
  show ?thesis by blast
qed

section \<open>Verification console: results\<close>

subsection \<open>Auxiliary facts\<close>

lemma requiredDocs_ids:
  "map doc_id (filter doc_required documentTypes) =
     [''10th_marksheet'', ''12th_marksheet'', ''transfer_certificate'', ''character_certificate'',
      ''passport_photos'', ''aadhar_card'']"
  by (simp add: documentTypes_def)

lemma allRequired_iff:
  "list_all (isVerified vdata) (filter doc_required documentTypes) \<longleftrightarrow>
   list_all (\<lambda>i. case vdata i of None \<Rightarrow> False | Some d \<Rightarrow> verified d)
     [''10th_marksheet'', ''12th_marksheet'', ''transfer_certificate'', ''character_certificate'',
      ''passport_photos'', ''aadhar_card'']"
  by (simp add: documentTypes_def isVerified_def)

lemma searchEffect_subset: "set (filteredStudents (searchEffect st)) \<subseteq> set (students st)"
  by (auto simp: searchEffect_def)

lemma searchEffect_students: "students (searchEffect st) = students st"
  by (simp add: searchEffect_def)

lemma load_students_actionable:
  "list_all actionable (students st) \<Longrightarrow>
   list_all actionable (students (loadStudentsForVerification result st))"
  by (auto simp: loadStudentsForVerification_def Let_def list_all_iff
           split: fetch_result.splits option.splits)

lemma console_step_actionable:
  assumes "list_all actionable (students st)"
  shows "list_all actionable (students (console_step st ev)) \<and>
         list_all actionable (filteredStudents (console_step st ev))"
proof (cases ev)
  case (EvLoad result)
  from assms have "list_all actionable (students (loadStudentsForVerification result st))"
    by (rule load_students_actionable)
  then show ?thesis
    using searchEffect_subset [of "loadStudentsForVerification result st"]
    by (auto simp: EvLoad searchEffect_students list_all_iff)
next
  case (EvSearch query)
  from assms show ?thesis
    using searchEffect_subset [of "st\<lparr>searchQuery := query\<rparr>"]
    by (auto simp: EvSearch searchEffect_students list_all_iff)
qed

lemma console_run_actionable:
  "list_all actionable (students st) \<Longrightarrow> list_all actionable (filteredStudents st) \<Longrightarrow>
   list_all actionable (students (console_run st evs)) \<and>
   list_all actionable (filteredStudents (console_run st evs))"
  unfolding console_run_def
proof (induction evs arbitrary: st)
  case Nil
  then show ?case by simp
next
  case (Cons ev evs)
  from console_step_actionable [OF Cons.prems(1), of ev] Cons.IH [of "console_step st ev"]
  show ?case by simp
qed

subsection \<open>The status transition after saving\<close>

text \<open>
  Claim C1. The requests of \<open>saveVerification\<close> contain a status request exactly when a
  student is selected, the verification map was stored (an OK response that reports
  success) and every one of the six required document types, 10th marksheet, 12th
  marksheet, transfer certificate, character certificate, passport photos and aadhar
  card, is verified in the current map; the request is then the single one that sets
  the status \<open>documents_verified\<close>, addressed with the \<open>studentId\<close> field of the selected
  student. In every other case, in particular when a required document is not verified,
  there is no status request.
\<close>

theorem status_transition_iff_required_verified:
  "filter is_status_call (snd (saveVerification result st)) =
     (if selectedStudent st \<noteq> None \<and>
         (case result of NetworkFailure \<Rightarrow> False | Response ok data \<Rightarrow> ok \<and> body_success data) \<and>
         list_all (\<lambda>i. case verificationData st i of None \<Rightarrow> False | Some d \<Rightarrow> verified d)
           [''10th_marksheet'', ''12th_marksheet'', ''transfer_certificate'',
            ''character_certificate'', ''passport_photos'', ''aadhar_card'']
      then [PutStatus (studentId (the (selectedStudent st))) ''documents_verified'']
      else []) \<and>
   map doc_id (filter doc_required documentTypes) =
     [''10th_marksheet'', ''12th_marksheet'', ''transfer_certificate'', ''character_certificate'',
      ''passport_photos'', ''aadhar_card'']"
proof -
  define c where
    "c = list_all (isVerified (verificationData st)) (filter doc_required documentTypes)"
  have eq: "list_all (\<lambda>i. case verificationData st i of None \<Rightarrow> False | Some d \<Rightarrow> verified d)
           [''10th_marksheet'', ''12th_marksheet'', ''transfer_certificate'',
            ''character_certificate'', ''passport_photos'', ''aadhar_card''] = c"
    unfolding c_def by (rule allRequired_iff [symmetric])
  have sv: "snd (saveVerification result st) =
     (case selectedStudent st of
        None \<Rightarrow> []
      | Some sel \<Rightarrow>
          (case result of
             NetworkFailure \<Rightarrow> [PutDocuments (student_id sel)]
           | Response ok data \<Rightarrow>
               if ok \<and> body_success data
               then if c then [PutDocuments (student_id sel),
                               PutStatus (studentId sel) ''documents_verified'',
                               GetPendingVerification]
                    else [PutDocuments (student_id sel), GetPendingVerification]
               else [PutDocuments (student_id sel)]))"
    by (simp add: saveVerification_def Let_def c_def split: option.splits fetch_result.splits)
  have ids: "map doc_id (filter doc_required documentTypes) =
     [''10th_marksheet'', ''12th_marksheet'', ''transfer_certificate'', ''character_certificate'',
      ''passport_photos'', ''aadhar_card'']"
    by (rule requiredDocs_ids)
  show ?thesis
    unfolding eq sv ids
    by (cases "selectedStudent st"; cases result; cases c) (simp_all add: is_status_call_def)
qed

theorem status_transition_iff_required_verified_witness:
  "filter is_status_call (snd (saveVerification (Response True ok_body) (review_state all_verified))) =
     [PutStatus ''S1'' ''documents_verified''] \<and>
   filter is_status_call
     (snd (saveVerification (Response True ok_body)
             (review_state (all_verified(''aadhar_card'' := None))))) = [] \<and>
   filter is_status_call (snd (saveVerification NetworkFailure (review_state all_verified))) = []"
proof -
  have s: "selectedStudent (review_state vdata) =
             Some (sample_student ''S1'' ''CSE'' ''photo_uploaded'' ''present'' ''t1'')"
    "verificationData (review_state vdata) = vdata" for vdata
    by (simp_all add: review_state_def)
  from status_transition_iff_required_verified
         [where result = "Response True ok_body" and st = "review_state all_verified"]
  have 1: "filter is_status_call
             (snd (saveVerification (Response True ok_body) (review_state all_verified))) =
           [PutStatus ''S1'' ''documents_verified'']"
    by (simp add: s all_verified_def ok_body_def sample_student_def)
  from status_transition_iff_required_verified
         [where result = "Response True ok_body"
            and st = "review_state (all_verified(''aadhar_card'' := None))"]
  have 2: "filter is_status_call
     (snd (saveVerification (Response True ok_body)
             (review_state (all_verified(''aadhar_card'' := None))))) = []"
    by (simp add: s all_verified_def ok_body_def)
  from status_transition_iff_required_verified
         [where result = NetworkFailure and st = "review_state all_verified"]
  have 3: "filter is_status_call
             (snd (saveVerification NetworkFailure (review_state all_verified))) = []"
    by simp
  from 1 2 3 show ?thesis by blast
qed

subsection \<open>The list of students to verify\<close>

text \<open>
  Claim C2. When the list request succeeds, the students kept, and the list shown, are
  exactly the received students whose status is \<open>photo_uploaded\<close> and whose attendance is
  \<open>present\<close>, in the received order; every other received student is dropped. Through
  every sequence of loads and searches from the initial state, each student in the
  kept list and in the shown list has that status and that attendance.
\<close>

theorem console_list_only_actionable:
  "(list_success data \<longrightarrow>
      students (loadStudentsForVerification
                  (Response True (data\<lparr>list_students := Some received\<rparr>)) st) =
        filter (\<lambda>s. status s = ''photo_uploaded'' \<and> attendance s = ''present'') received \<and>
      filteredStudents (loadStudentsForVerification
                  (Response True (data\<lparr>list_students := Some received\<rparr>)) st) =
        filter (\<lambda>s. status s = ''photo_uploaded'' \<and> attendance s = ''present'') received) \<and>
   (\<forall>s \<in> set (students (console_run initial_console evs)) \<union>
            set (filteredStudents (console_run initial_console evs)).
      status s = ''photo_uploaded'' \<and> attendance s = ''present'')"
proof -
  have "list_all actionable (students initial_console)"
    "list_all actionable (filteredStudents initial_console)"
    by (simp_all add: initial_console_def)
  from console_run_actionable [OF this, of evs]
  have "\<forall>s \<in> set (students (console_run initial_console evs)) \<union>
            set (filteredStudents (console_run initial_console evs)).
      status s = ''photo_uploaded'' \<and> attendance s = ''present''"
    by (auto simp: list_all_iff actionable_def)
  moreover have "actionable = (\<lambda>s. status s = ''photo_uploaded'' \<and> attendance s = ''present'')"
    by (rule ext) (simp add: actionable_def)
  ultimately show ?thesis
    by (simp add: loadStudentsForVerification_def Let_def)
qed

theorem console_list_only_actionable_witness:
  "students (loadStudentsForVerification
       (Response True \<lparr> list_success = True, list_students = Some sample_roster \<rparr>)
       initial_console) =
     [sample_student ''S1'' ''A'' ''photo_uploaded'' ''present'' ''t1'',
      sample_student ''S2'' ''A'' ''photo_uploaded'' ''present'' ''t2''] \<and>
   filteredStudents (console_run initial_console
       [EvLoad (Response True \<lparr> list_success = True, list_students = Some sample_roster \<rparr>),
        EvSearch ''ns2'']) =
     [sample_student ''S2'' ''A'' ''photo_uploaded'' ''present'' ''t2''] \<and>
   list_all (\<lambda>s. status s = ''photo_uploaded'' \<and> attendance s = ''present'')
     (filteredStudents (console_run initial_console
       [EvLoad (Response True \<lparr> list_success = True, list_students = Some sample_roster \<rparr>),
        EvSearch ''ns2'']))"
proof -
  let ?r = "Response True \<lparr> list_success = True, list_students = Some sample_roster \<rparr>"
  from console_list_only_actionable
         [where data = "\<lparr> list_success = True, list_students = None \<rparr>"
            and received = sample_roster and st = initial_console
            and evs = "[EvLoad ?r, EvSearch ''ns2'']"]
  have 1: "students (loadStudentsForVerification ?r initial_console) =
     [sample_student ''S1'' ''A'' ''photo_uploaded'' ''present'' ''t1'',
      sample_student ''S2'' ''A'' ''photo_uploaded'' ''present'' ''t2'']"
    and 3: "list_all (\<lambda>s. status s = ''photo_uploaded'' \<and> attendance s = ''present'')
     (filteredStudents (console_run initial_console [EvLoad ?r, EvSearch ''ns2'']))"
    by (simp_all add: sample_roster_def sample_student_def list_all_iff)
  have lower: "char_of (110::nat) = CHR ''n''" "char_of (115::nat) = CHR ''s''"
    by code_simp+
  have 2: "filteredStudents (console_run initial_console [EvLoad ?r, EvSearch ''ns2'']) =
     [sample_student ''S2'' ''A'' ''photo_uploaded'' ''present'' ''t2'']"
    by (simp add: console_run_def searchEffect_def loadStudentsForVerification_def Let_def
          initial_console_def sample_roster_def sample_student_def actionable_def
          matchesSearch_def toLowerCase_def trim_def is_space_def lower)
  from 1 2 3 show ?thesis by blast
qed

section \<open>Queue dashboard: results\<close>

subsection \<open>Auxiliary facts\<close>





lemma mset_insertBy: "mset (insertBy cmp x ys) = add_mset x (mset ys)"
  by (induction ys) auto

lemma mset_insertion: "mset (foldr (insertBy cmp) xs []) = mset xs"
  by (induction xs) (simp_all add: mset_insertBy)







lemma elements_arraySort: "mset (elements (arraySort cmp xs)) = mset xs"
  by (simp add: arraySort_def mset_insertion)

















subsection \<open>The queues shown\<close>



subsection \<open>Students whose documents are verified\<close>



end
